theory Spec2Isabelle
  imports Complex_Main
begin

section \<open>Currency Rate Analyst: the streaming bridge of \<open>main.py\<close>\<close>

text \<open>
  The service forwards a prompt to an agent SDK and relays the agent's messages, either
  as one synthesized answer (\<open>query_agent\<close>, route \<open>/query\<close>) or as a stream of
  server-sent events (\<open>stream_agent_progress\<close>, route \<open>/stream\<close>). Both handlers
  run the same loop over the asynchronous sequence returned by the SDK's \<open>query\<close>.
\<close>

subsection \<open>Python values\<close>

text \<open>
  The values that appear in the dictionaries the handlers build. \<open>'f\<close> stands for
  Python's \<open>float\<close>: the handlers only pass such numbers through. A \<open>dict\<close> literal is
  an association list in the order of the source, since the order of keys is kept.
\<close>

datatype 'f pyval =
    PNone
  | PBool bool
  | PInt int
  | PFloat 'f
  | PStr string
  | PList "'f pyval list"
  | PDict "(string \<times> 'f pyval) list"

type_synonym 'f pydict = "(string \<times> 'f pyval) list"

text \<open>\<open>sep.join(xs)\<close>.\<close>

fun join :: "string \<Rightarrow> string list \<Rightarrow> string" where
  "join sep [] = ''''"
| "join sep [x] = x"
| "join sep (x # y # ys) = x @ sep @ join sep (y # ys)"

text \<open>
  \<open>x or {}\<close> for an optional dict: \<open>None\<close> and the empty dict are both falsy.
\<close>

fun or_empty :: "'f pydict option \<Rightarrow> 'f pydict" where
  "or_empty None = []"
| "or_empty (Some d) = (if d = [] then [] else d)"

text \<open>
  The pictographs of the messages, as the bytes of their UTF-8 encoding (a \<open>char\<close> is a
  byte): U+1F916, U+1F4CB, U+1F4AD, U+1F527, U+2705, U+274C.
\<close>

definition emoji_robot :: string where
  "emoji_robot = [CHR 0xF0, CHR 0x9F, CHR 0xA4, CHR 0x96]"

definition emoji_clipboard :: string where
  "emoji_clipboard = [CHR 0xF0, CHR 0x9F, CHR 0x93, CHR 0x8B]"

definition emoji_thought :: string where
  "emoji_thought = [CHR 0xF0, CHR 0x9F, CHR 0x92, CHR 0xAD]"

definition emoji_wrench :: string where
  "emoji_wrench = [CHR 0xF0, CHR 0x9F, CHR 0x94, CHR 0xA7]"

definition emoji_check :: string where
  "emoji_check = [CHR 0xE2, CHR 0x9C, CHR 0x85]"

definition emoji_cross :: string where
  "emoji_cross = [CHR 0xE2, CHR 0x9D, CHR 0x8C]"

subsection \<open>Requests, responses, configuration\<close>

record QueryRequest =
  prompt :: string
  max_turns :: int

record 'f QueryResponse =
  status :: string
  response :: string
  usage :: "'f pydict"
  agent_info :: "'f pydict"

text \<open>
  The dict that \<open>create_event\<close> serializes into the frame \<open>data: <json>\<close> followed by
  an empty line. The frame is kept as this dict: the serialization is a fixed wrapping.
\<close>

record 'f StreamEvent =
  type :: string
  data :: "'f pydict"
  timestamp :: string

record HTTPException =
  status_code :: int
  detail :: string

text \<open>The entries of \<open>AGENT_CONFIG\<close>.\<close>

definition AGENT_CONFIG_name :: string where
  "AGENT_CONFIG_name = ''Currency Rate Analyst''"

definition AGENT_CONFIG_role :: string where
  "AGENT_CONFIG_role = ''Financial Data Analyst specializing in currency conversion rates''"

definition AGENT_CONFIG_tools :: "string list" where
  "AGENT_CONFIG_tools = [''WebSearch'', ''WebFetch'', ''Read'', ''Write'', ''Bash'']"

definition AGENT_CONFIG_system_prompt :: string where
  "AGENT_CONFIG_system_prompt = join ''\<newline>''
    [''You are a Currency Rate Analyst, an expert financial data analyst specializing in currency conversion rates. Your primary responsibility is to gather accurate, real-time exchange rates for major world currencies and present them in well-structured Excel files.'',
     '''',
     ''Your core competencies include:'',
     ''- Researching and retrieving current exchange rates from reliable financial sources'',
     ''- Identifying major global currencies (USD, EUR, GBP, JPY, CHF, CAD, AUD, CNY, etc.)'',
     ''- Creating comprehensive conversion matrices showing exchange rates between currency pairs'',
     ''- Generating Excel files with proper formatting, headers, and data organization'',
     ''- Providing metadata such as data source, timestamp, and update frequency'',
     ''- Ensuring data accuracy and presenting rates with appropriate decimal precision'',
     '''',
     ''Your workflow:'',
     ''1. Search for reliable currency exchange rate sources (financial APIs, central banks, forex platforms)'',
     ''2. Fetch current exchange rates for major currencies'',
     ''3. Process and organize the data into a structured format'',
     ''4. Create an Excel file (CSV or use Python/bash tools to generate XLSX format)'',
     ''5. Include conversion tables, base currency comparisons, and relevant metadata'',
     ''6. Validate data completeness and accuracy before delivery'',
     '''',
     ''Your personality is analytical, detail-oriented, and precise. You present financial data with clarity and professionalism, ensuring users receive accurate and actionable currency information.'']"

definition AGENT_CONFIG_permission_mode :: string where
  "AGENT_CONFIG_permission_mode = ''acceptEdits''"

text \<open>
  The keyword arguments both handlers give to \<open>ClaudeAgentOptions\<close>: allowed tools,
  system prompt, permission mode, maximum number of turns.
\<close>

datatype ClaudeAgentOptions = ClaudeAgentOptions "string list" string string int

definition make_options :: "QueryRequest \<Rightarrow> ClaudeAgentOptions" where
  "make_options request =
     ClaudeAgentOptions AGENT_CONFIG_tools AGENT_CONFIG_system_prompt
       AGENT_CONFIG_permission_mode (max_turns request)"

definition agent_info_dict :: "'f pydict" where
  "agent_info_dict = [(''name'', PStr AGENT_CONFIG_name), (''role'', PStr AGENT_CONFIG_role)]"

subsection \<open>The agent SDK: messages and the producer\<close>

text \<open>
  The message and block classes are imported from the SDK. The handlers test them with
  \<open>isinstance\<close> and read \<open>text\<close>, \<open>name\<close>, \<open>input\<close> and the four fields of the result
  message (duration in milliseconds, total cost, number of turns, session identifier);
  every other class takes the branch where nothing happens.
\<close>

datatype 'f ContentBlock =
    TextBlock string
  | ToolUseBlock string "'f pydict"
  | ToolResultBlock
  | OtherBlock

datatype 'f Message =
    AssistantMessage "'f ContentBlock list"
  | ResultMessage int 'f int string
  | OtherMessage

text \<open>
  An exception caught by \<open>except Exception\<close>: its class and what \<open>str\<close> returns for it.
\<close>

datatype exception = Exception string string

fun str :: "exception \<Rightarrow> string" where
  "str (Exception cls msg) = msg"

text \<open>
  The asynchronous sequence returned by \<open>query\<close>: the messages it yields, in order, and
  how advancing it past the last one ends, by exhaustion or by raising.
\<close>

datatype ending = StopAsyncIteration | Raises exception

datatype 'f producer = Producer "'f Message list" ending

text \<open>
  What a handler does, in order: a \<open>yield create_event(type, data)\<close>, the call of
  \<open>query\<close> with its arguments, one advance of the producer by \<open>async for\<close>.
\<close>

datatype 'f step =
    Yield string "'f pydict"
  | Call string ClaudeAgentOptions
  | Anext

subsection \<open>\<open>stream_agent_progress\<close>\<close>

definition create_event :: "string \<Rightarrow> string \<Rightarrow> 'f pydict \<Rightarrow> 'f StreamEvent" where
  "create_event now event_type d = \<lparr>type = event_type, data = d, timestamp = now\<rparr>"

text \<open>\<open>for block in message.content\<close> of the generator, from \<open>response_parts\<close>.\<close>

fun stream_blocks :: "'f ContentBlock list \<Rightarrow> string list \<Rightarrow> 'f step list \<times> string list" where
  "stream_blocks [] response_parts = ([], response_parts)"
| "stream_blocks (TextBlock t # bs) response_parts =
     (let (ys, parts) = stream_blocks bs (response_parts @ [t])
      in (Yield ''response''
            [(''content'', PStr t), (''partial'', PBool True),
             (''message'', PStr (emoji_thought @ '' Agent thinking...''))] # ys, parts))"
| "stream_blocks (ToolUseBlock n i # bs) response_parts =
     (let (ys, parts) = stream_blocks bs response_parts
      in (Yield ''tool_use''
            [(''tool'', PStr n), (''input'', PDict i),
             (''message'', PStr (emoji_wrench @ '' Using '' @ n @ '' tool...'')),
             (''status'', PStr ''executing'')] # ys, parts))"
| "stream_blocks (_ # bs) response_parts = stream_blocks bs response_parts"

text \<open>
  \<open>async for message in query(...)\<close> of the generator. The result is the exception that
  left the loop, or \<open>response_parts\<close> and \<open>usage_info\<close> after it.
\<close>

fun stream_messages ::
  "'f Message list \<Rightarrow> ending \<Rightarrow> string list \<Rightarrow>
     'f step list \<times> (exception + string list \<times> 'f pydict option)" where
  "stream_messages [] StopAsyncIteration response_parts = ([Anext], Inr (response_parts, None))"
| "stream_messages [] (Raises e) response_parts = ([Anext], Inl e)"
| "stream_messages (AssistantMessage content # ms) en response_parts =
     (let (ys, parts) = stream_blocks content response_parts;
          (steps, r) = stream_messages ms en parts
      in (Anext # ys @ steps, r))"
| "stream_messages (ResultMessage duration_ms total_cost_usd num_turns session_id # ms) en response_parts =
     ([Anext],
      Inr (response_parts,
           Some [(''duration_ms'', PInt duration_ms), (''total_cost_usd'', PFloat total_cost_usd),
                 (''num_turns'', PInt num_turns), (''session_id'', PStr session_id)]))"
| "stream_messages (OtherMessage # ms) en response_parts =
     (let (steps, r) = stream_messages ms en response_parts in (Anext # steps, r))"

definition full_response :: "string list \<Rightarrow> string" where
  "full_response response_parts =
     (if response_parts \<noteq> [] then join ''\<newline>'' response_parts else ''No response received'')"

definition complete_data :: "string list \<Rightarrow> 'f pydict option \<Rightarrow> 'f pydict" where
  "complete_data response_parts usage_info =
     [(''response'', PStr (full_response response_parts)),
      (''usage'', PDict (or_empty usage_info)),
      (''status'', PStr ''completed''),
      (''message'', PStr (emoji_check @ '' Task completed successfully!'')),
      (''agent_info'', PDict agent_info_dict)]"

definition error_data :: "exception \<Rightarrow> 'f pydict" where
  "error_data e =
     [(''error'', PStr (str e)),
      (''message'', PStr (emoji_cross @ '' Error: '' @ str e)),
      (''status'', PStr ''failed'')]"

definition progress_start :: "'f pydict" where
  "progress_start =
     [(''message'', PStr (emoji_robot @ '' Starting Currency Rate Analyst...'')),
      (''agent'', PStr AGENT_CONFIG_name),
      (''status'', PStr ''initializing'')]"

definition progress_processing :: "'f pydict" where
  "progress_processing =
     [(''message'', PStr (emoji_clipboard @ '' Processing your request...'')),
      (''status'', PStr ''processing'')]"

text \<open>
  The body of the generator: what it does, in order, for the producer that \<open>query\<close>
  returns.
\<close>

definition stream_steps ::
  "(string \<Rightarrow> ClaudeAgentOptions \<Rightarrow> 'f producer) \<Rightarrow> QueryRequest \<Rightarrow> 'f step list" where
  "stream_steps query request =
     (let options = make_options request in
      case query (prompt request) options of Producer ms en \<Rightarrow>
        (case stream_messages ms en [] of (steps, r) \<Rightarrow>
           [Yield ''progress'' progress_start, Yield ''progress'' progress_processing,
            Call (prompt request) options] @ steps @
           [case r of
              Inr (response_parts, usage_info) \<Rightarrow>
                Yield ''complete'' (complete_data response_parts usage_info)
            | Inl e \<Rightarrow> Yield ''error'' (error_data e)]))"

text \<open>
  The events a client receives: each \<open>yield\<close> makes its event when it is reached, with
  the time of that moment; \<open>clock k\<close> is what \<open>datetime.datetime.now().isoformat()\<close>
  returns at the call number \<open>k\<close>.
\<close>

fun emitted :: "(nat \<Rightarrow> string) \<Rightarrow> nat \<Rightarrow> 'f step list \<Rightarrow> 'f StreamEvent list" where
  "emitted clock k [] = []"
| "emitted clock k (Yield event_type d # steps) =
     create_event (clock k) event_type d # emitted clock (Suc k) steps"
| "emitted clock k (_ # steps) = emitted clock k steps"

definition stream_agent_progress ::
  "(nat \<Rightarrow> string) \<Rightarrow> (string \<Rightarrow> ClaudeAgentOptions \<Rightarrow> 'f producer) \<Rightarrow> QueryRequest \<Rightarrow>
     'f StreamEvent list" where
  "stream_agent_progress clock query request = emitted clock 0 (stream_steps query request)"

subsection \<open>\<open>query_agent\<close>\<close>

text \<open>\<open>for block in message.content\<close> of the blocking handler.\<close>

fun query_blocks :: "'f ContentBlock list \<Rightarrow> string list \<Rightarrow> string list" where
  "query_blocks [] response_parts = response_parts"
| "query_blocks (TextBlock t # bs) response_parts = query_blocks bs (response_parts @ [t])"
| "query_blocks (_ # bs) response_parts = query_blocks bs response_parts"

text \<open>\<open>async for message in query(...)\<close> of the blocking handler.\<close>

fun query_messages ::
  "'f Message list \<Rightarrow> ending \<Rightarrow> string list \<Rightarrow>
     'f step list \<times> (exception + string list \<times> 'f pydict option)" where
  "query_messages [] StopAsyncIteration response_parts = ([Anext], Inr (response_parts, None))"
| "query_messages [] (Raises e) response_parts = ([Anext], Inl e)"
| "query_messages (AssistantMessage content # ms) en response_parts =
     (let (steps, r) = query_messages ms en (query_blocks content response_parts)
      in (Anext # steps, r))"
| "query_messages (ResultMessage duration_ms total_cost_usd num_turns session_id # ms) en response_parts =
     ([Anext],
      Inr (response_parts,
           Some [(''duration_ms'', PInt duration_ms), (''total_cost_usd'', PFloat total_cost_usd),
                 (''num_turns'', PInt num_turns), (''session_id'', PStr session_id)]))"
| "query_messages (OtherMessage # ms) en response_parts =
     (let (steps, r) = query_messages ms en response_parts in (Anext # steps, r))"

text \<open>
  The handler returns what it did with the producer and either the response model or
  the \<open>HTTPException\<close> it raises.
\<close>

definition query_agent ::
  "(string \<Rightarrow> ClaudeAgentOptions \<Rightarrow> 'f producer) \<Rightarrow> QueryRequest \<Rightarrow>
     'f step list \<times> (HTTPException + 'f QueryResponse)" where
  "query_agent query request =
     (let options = make_options request in
      case query (prompt request) options of Producer ms en \<Rightarrow>
        (case query_messages ms en [] of (steps, r) \<Rightarrow>
           (Call (prompt request) options # steps,
            case r of
              Inr (response_parts, usage_info) \<Rightarrow>
                Inr \<lparr>status = ''success'', response = full_response response_parts,
                     usage = or_empty usage_info, agent_info = agent_info_dict\<rparr>
            | Inl e \<Rightarrow>
                Inl \<lparr>status_code = 500, detail = ''Agent execution failed: '' @ str e\<rparr>)))"

subsection \<open>The routes: validation of the request body\<close>

text \<open>
  The body of a POST, after JSON decoding, as far as the model \<open>QueryRequest\<close> reads it.
  Each of the two fields is absent, holds a value that the framework takes as the
  declared type (\<open>str\<close> for \<open>prompt\<close>, \<open>int\<close> for \<open>max_turns\<close>), or holds a value that
  it refuses for that type. \<open>prompt\<close> is required, \<open>max_turns\<close> has the default 20. The
  class declares no validator and no constraint on either field, so every string and
  every integer passes. A body that fails is answered 422 by the framework and the
  handler is not called.
\<close>

datatype 'a body_field = Absent | Present 'a | IllTyped

record request_body =
  body_prompt :: "string body_field"
  body_max_turns :: "int body_field"

datatype 'a routed = RequestValidationError int | Handled 'a

definition validate_QueryRequest :: "request_body \<Rightarrow> QueryRequest option" where
  "validate_QueryRequest body =
     (case body_prompt body of
        Present p \<Rightarrow>
          (case body_max_turns body of
             Absent \<Rightarrow> Some \<lparr>prompt = p, max_turns = 20\<rparr>
           | Present n \<Rightarrow> Some \<lparr>prompt = p, max_turns = n\<rparr>
           | IllTyped \<Rightarrow> None)
      | _ \<Rightarrow> None)"

definition post_query ::
  "(string \<Rightarrow> ClaudeAgentOptions \<Rightarrow> 'f producer) \<Rightarrow> request_body \<Rightarrow>
     ('f step list \<times> (HTTPException + 'f QueryResponse)) routed" where
  "post_query query body =
     (case validate_QueryRequest body of
        None \<Rightarrow> RequestValidationError 422
      | Some request \<Rightarrow> Handled (query_agent query request))"

definition post_stream ::
  "(string \<Rightarrow> ClaudeAgentOptions \<Rightarrow> 'f producer) \<Rightarrow> request_body \<Rightarrow> ('f step list) routed" where
  "post_stream query body =
     (case validate_QueryRequest body of
        None \<Rightarrow> RequestValidationError 422
      | Some request \<Rightarrow> Handled (stream_steps query request))"

subsection \<open>Reading events and steps\<close>

definition is_terminal :: "'f StreamEvent \<Rightarrow> bool" where
  "is_terminal ev = (type ev = ''complete'' \<or> type ev = ''error'')"

definition of_type :: "string \<Rightarrow> 'f StreamEvent list \<Rightarrow> 'f StreamEvent list" where
  "of_type t evs = filter (\<lambda>ev. type ev = t) evs"

definition advances :: "'f step list \<Rightarrow> nat" where
  "advances steps = length (filter (\<lambda>s. s = Anext) steps)"

fun is_ResultMessage :: "'f Message \<Rightarrow> bool" where
  "is_ResultMessage (ResultMessage d c n s) = True"
| "is_ResultMessage _ = False"

fun has_TextBlock :: "'f Message \<Rightarrow> bool" where
  "has_TextBlock (AssistantMessage content) = (\<exists>b \<in> set content. \<exists>t. b = TextBlock t)"
| "has_TextBlock _ = False"

text \<open>The event types of the \<open>yield\<close>s of a list of steps, in order.\<close>

fun yield_types :: "'f step list \<Rightarrow> string list" where
  "yield_types [] = []"
| "yield_types (Yield t d # steps) = t # yield_types steps"
| "yield_types (_ # steps) = yield_types steps"

text \<open>
  A \<open>query\<close> that returns the given producer whatever the prompt and the options, and
  a clock that returns the given readings in order.
\<close>

fun fixed_query :: "'f producer \<Rightarrow> string \<Rightarrow> ClaudeAgentOptions \<Rightarrow> 'f producer" where
  "fixed_query p prompt_arg options = p"

fun clock_of :: "string list \<Rightarrow> nat \<Rightarrow> string" where
  "clock_of ts k = (if k < length ts then ts ! k else '''')"

section \<open>Properties\<close>

lemma yield_types_append: "yield_types (xs @ ys) = yield_types xs @ yield_types ys"
  by (induction xs rule: yield_types.induct) simp_all

lemma emitted_types: "map type (emitted clock k steps) = yield_types steps"
  by (induction clock k steps rule: emitted.induct) (simp_all add: create_event_def)

lemma emitted_length: "length (emitted clock k steps) = length (yield_types steps)"
  by (induction clock k steps rule: emitted.induct) simp_all

lemma emitted_append:
  "emitted clock k (xs @ ys) = emitted clock k xs @ emitted clock (k + length (yield_types xs)) ys"
  by (induction clock k xs rule: emitted.induct) simp_all

lemma stream_blocks_types:
  "set (yield_types (fst (stream_blocks bs parts))) \<subseteq> {''response'', ''tool_use''}"
  by (induction bs parts rule: stream_blocks.induct) (auto split: prod.splits)

lemma stream_messages_types:
  "set (yield_types (fst (stream_messages ms en parts))) \<subseteq> {''response'', ''tool_use''}"
proof (induction ms en parts rule: stream_messages.induct)
  case (3 content ms en parts)
  obtain ys p where b: "stream_blocks content parts = (ys, p)" by (cases "stream_blocks content parts")
  obtain st r where m: "stream_messages ms en p = (st, r)" by (cases "stream_messages ms en p")
  have "set (yield_types ys) \<subseteq> {''response'', ''tool_use''}"
    using stream_blocks_types [of content parts] b by simp
  moreover have "set (yield_types st) \<subseteq> {''response'', ''tool_use''}"
    using 3 b m by simp
  ultimately show ?case using b m by (simp add: yield_types_append)
qed (auto split: prod.splits)

lemma stream_blocks_parts: "snd (stream_blocks bs parts) = query_blocks bs parts"
  by (induction bs parts rule: stream_blocks.induct) (auto split: prod.splits)

lemma stream_messages_result:
  "snd (stream_messages ms en parts) = snd (query_messages ms en parts)"
proof (induction ms en parts rule: stream_messages.induct)
  case (3 content ms en parts)
  then show ?case using stream_blocks_parts [of content parts]
    by (auto split: prod.splits)
qed (auto split: prod.splits)

lemma stream_messages_starts: "\<exists>rest. fst (stream_messages ms en parts) = Anext # rest"
  by (induction ms en parts rule: stream_messages.induct) (auto split: prod.splits)

lemma of_type_emitted_messages:
  assumes "t \<noteq> ''response''" and "t \<noteq> ''tool_use''"
  shows "of_type t (emitted clock k (fst (stream_messages ms en parts))) = []"
proof -
  have "t \<notin> set (map type (emitted clock k (fst (stream_messages ms en parts))))"
    using stream_messages_types [of ms en parts] assms by (auto simp: emitted_types)
  then show ?thesis by (auto simp: of_type_def filter_empty_conv)
qed

lemma stream_events_complete:
  assumes "query (prompt request) (make_options request) = Producer ms en"
    and "stream_messages ms en [] = (steps, Inr (parts, u))"
  shows "stream_agent_progress clock query request =
           create_event (clock 0) ''progress'' progress_start #
           create_event (clock 1) ''progress'' progress_processing #
           emitted clock 2 steps @
           [create_event (clock (2 + length (yield_types steps))) ''complete'' (complete_data parts u)]"
  using assms by (simp add: stream_agent_progress_def stream_steps_def emitted_append numeral_2_eq_2)

lemma stream_events_error:
  assumes "query (prompt request) (make_options request) = Producer ms en"
    and "stream_messages ms en [] = (steps, Inl e)"
  shows "stream_agent_progress clock query request =
           create_event (clock 0) ''progress'' progress_start #
           create_event (clock 1) ''progress'' progress_processing #
           emitted clock 2 steps @
           [create_event (clock (2 + length (yield_types steps))) ''error'' (error_data e)]"
  using assms by (simp add: stream_agent_progress_def stream_steps_def emitted_append numeral_2_eq_2)

lemma startup_steps:
  "\<exists>rest. stream_steps query request =
        Yield ''progress'' progress_start # Yield ''progress'' progress_processing #
        Call (prompt request) (make_options request) # Anext # rest"
proof -
  obtain ms en where p: "query (prompt request) (make_options request) = Producer ms en"
    by (cases "query (prompt request) (make_options request)")
  obtain steps r where m: "stream_messages ms en [] = (steps, r)"
    by (cases "stream_messages ms en []")
  obtain rest where s: "steps = Anext # rest"
    using stream_messages_starts [of ms en "[]"] m by auto
  show ?thesis using p m s by (simp add: stream_steps_def)
qed

text \<open>
  C8. Whatever the request and whatever the producer does (also when its first advance
  raises), the generator first yields two \<open>progress\<close> events, the startup one and the
  processing one, and only then calls \<open>query\<close> and advances the producer; they are
  the first two events of the stream and its only \<open>progress\<close> events.
\<close>

theorem startup_progress_events:
  "(\<exists>rest. stream_steps query request =
        Yield ''progress'' progress_start # Yield ''progress'' progress_processing #
        Call (prompt request) (make_options request) # Anext # rest) \<and>
   take 2 (stream_agent_progress clock query request) =
     [create_event (clock 0) ''progress'' progress_start,
      create_event (clock 1) ''progress'' progress_processing] \<and>
   of_type ''progress'' (stream_agent_progress clock query request) =
     [create_event (clock 0) ''progress'' progress_start,
      create_event (clock 1) ''progress'' progress_processing]"
proof -
  obtain ms en where p: "query (prompt request) (make_options request) = Producer ms en"
    by (cases "query (prompt request) (make_options request)")
  obtain steps r where m: "stream_messages ms en [] = (steps, r)"
    by (cases "stream_messages ms en []")
  obtain rest where s: "steps = Anext # rest"
    using stream_messages_starts [of ms en "[]"] m by auto
  have a: "\<exists>rest. stream_steps query request =
        Yield ''progress'' progress_start # Yield ''progress'' progress_processing #
        Call (prompt request) (make_options request) # Anext # rest"
    by (rule startup_steps)
  have none: "of_type ''progress'' (emitted clock 2 steps) = []"
    using of_type_emitted_messages [of "''progress''" clock 2 ms en "[]"] m by simp
  show ?thesis
  proof (cases r)
    case (Inl e)
    then show ?thesis
      using a none stream_events_error [of query request ms en steps e clock] p m
      by (simp add: of_type_def create_event_def)
  next
    case (Inr pu)
    then obtain parts u where "r = Inr (parts, u)" by (cases pu) simp
    then show ?thesis
      using a none stream_events_complete [of query request ms en steps parts u clock] p m
      by (simp add: of_type_def create_event_def)
  qed
qed

text \<open>
  C3. For every producer, failing or not, the stream is a list of events that are neither
  \<open>complete\<close> nor \<open>error\<close>, followed by exactly one event of type \<open>complete\<close> or
  \<open>error\<close>, after which nothing is emitted.
\<close>

theorem one_terminal_event_last:
  "\<exists>evs t. stream_agent_progress clock query request = evs @ [t] \<and>
           is_terminal t \<and> filter is_terminal evs = []"
proof -
  obtain ms en where p: "query (prompt request) (make_options request) = Producer ms en"
    by (cases "query (prompt request) (make_options request)")
  obtain steps r where m: "stream_messages ms en [] = (steps, r)"
    by (cases "stream_messages ms en []")
  have c: "of_type ''complete'' (emitted clock 2 steps) = []"
    using of_type_emitted_messages [of "''complete''" clock 2 ms en "[]"] m by simp
  have e: "of_type ''error'' (emitted clock 2 steps) = []"
    using of_type_emitted_messages [of "''error''" clock 2 ms en "[]"] m by simp
  have none: "filter is_terminal (emitted clock 2 steps) = []"
    using c e by (auto simp: of_type_def is_terminal_def filter_empty_conv)
  let ?pre = "create_event (clock 0) ''progress'' progress_start #
           create_event (clock 1) ''progress'' progress_processing #
           emitted clock 2 steps"
  have pre: "filter is_terminal ?pre = []"
    using none by (simp add: is_terminal_def create_event_def)
  show ?thesis
  proof (cases r)
    case (Inl e)
    have "stream_agent_progress clock query request =
        ?pre @ [create_event (clock (2 + length (yield_types steps))) ''error'' (error_data e)]"
      using stream_events_error [of query request ms en steps e clock] p m Inl by simp
    moreover have "is_terminal (create_event (clock (2 + length (yield_types steps))) ''error'' (error_data e))"
      by (simp add: is_terminal_def create_event_def)
    ultimately show ?thesis using pre by blast
  next
    case (Inr pu)
    then obtain parts u where "r = Inr (parts, u)" by (cases pu) simp
    then have "stream_agent_progress clock query request =
        ?pre @ [create_event (clock (2 + length (yield_types steps))) ''complete'' (complete_data parts u)]"
      using stream_events_complete [of query request ms en steps parts u clock] p m by simp
    moreover have "is_terminal (create_event (clock (2 + length (yield_types steps))) ''complete'' (complete_data parts u))"
      by (simp add: is_terminal_def create_event_def)
    ultimately show ?thesis using pre by blast
  qed
qed


lemma query_blocks_no_text:
  "\<forall>b \<in> set bs. \<forall>t. b \<noteq> TextBlock t \<Longrightarrow> query_blocks bs parts = parts"
  by (induction bs parts rule: query_blocks.induct) simp_all


lemma stream_blocks_no_anext: "filter (\<lambda>s. s = Anext) (fst (stream_blocks bs ps)) = []"
  by (induction bs ps rule: stream_blocks.induct) (simp_all add: case_prod_beta)

lemma stream_messages_prefix:
  assumes "\<forall>m \<in> set pre. \<not> is_ResultMessage m"
  shows "\<exists>steps p.
           stream_messages pre StopAsyncIteration parts = (steps @ [Anext], Inr (p, None)) \<and>
           stream_messages pre (Raises e) parts = (steps @ [Anext], Inl e) \<and>
           stream_messages (pre @ ResultMessage d c n s # post) en parts =
             (steps @ [Anext],
              Inr (p, Some [(''duration_ms'', PInt d), (''total_cost_usd'', PFloat c),
                            (''num_turns'', PInt n), (''session_id'', PStr s)])) \<and>
           advances steps = length pre"
  using assms
proof (induction pre arbitrary: parts)
  case Nil
  show ?case by (simp add: advances_def)
next
  case (Cons m pre)
  show ?case
  proof (cases m)
    case (AssistantMessage content)
    obtain ys q where b: "stream_blocks content parts = (ys, q)"
      by (cases "stream_blocks content parts")
    have ny: "filter (\<lambda>s. s = Anext) ys = []"
      using stream_blocks_no_anext [of content parts] b by simp
    from Cons.IH [of q] Cons.prems obtain steps p where
      ih: "stream_messages pre StopAsyncIteration q = (steps @ [Anext], Inr (p, None))"
          "stream_messages pre (Raises e) q = (steps @ [Anext], Inl e)"
          "stream_messages (pre @ ResultMessage d c n s # post) en q =
             (steps @ [Anext],
              Inr (p, Some [(''duration_ms'', PInt d), (''total_cost_usd'', PFloat c),
                            (''num_turns'', PInt n), (''session_id'', PStr s)]))"
          "advances steps = length pre"
      by auto
    show ?thesis
      apply (rule exI [of _ "Anext # ys @ steps"])
      apply (rule exI [of _ p])
      using AssistantMessage b ih ny by (simp add: advances_def)
  next
    case (ResultMessage d' c' n' s')
    then show ?thesis using Cons.prems by simp
  next
    case OtherMessage
    from Cons.IH [of parts] Cons.prems obtain steps p where
      ih: "stream_messages pre StopAsyncIteration parts = (steps @ [Anext], Inr (p, None))"
          "stream_messages pre (Raises e) parts = (steps @ [Anext], Inl e)"
          "stream_messages (pre @ ResultMessage d c n s # post) en parts =
             (steps @ [Anext],
              Inr (p, Some [(''duration_ms'', PInt d), (''total_cost_usd'', PFloat c),
                            (''num_turns'', PInt n), (''session_id'', PStr s)]))"
          "advances steps = length pre"
      by auto
    show ?thesis
      apply (rule exI [of _ "Anext # steps"])
      apply (rule exI [of _ p])
      using OtherMessage ih by (simp add: advances_def)
  qed
qed

lemma query_messages_steps:
  "fst (query_messages ms en parts) = replicate (advances (fst (stream_messages ms en parts))) Anext"
proof (induction ms en parts rule: stream_messages.induct)
  case (3 content ms en parts)
  obtain ys q where b: "stream_blocks content parts = (ys, q)"
    by (cases "stream_blocks content parts")
  have ny: "filter (\<lambda>s. s = Anext) ys = []"
    using stream_blocks_no_anext [of content parts] b by simp
  have q: "q = query_blocks content parts"
    using stream_blocks_parts [of content parts] b by simp
  show ?case using 3 b ny q by (simp add: advances_def case_prod_beta)
qed (simp_all add: advances_def case_prod_beta)

lemma nonfailing_result:
  "en = StopAsyncIteration \<or> (\<exists>m \<in> set ms. is_ResultMessage m) \<Longrightarrow>
   \<exists>p u. snd (query_messages ms en parts) = Inr (p, u)"
  by (induction ms en parts rule: query_messages.induct) (simp_all add: case_prod_beta)

lemma no_text_parts:
  "\<forall>m \<in> set ms. \<not> has_TextBlock m \<Longrightarrow>
   snd (query_messages ms en parts) = Inr (p, u) \<Longrightarrow> p = parts"
proof (induction ms en parts rule: query_messages.induct)
  case (3 content ms en parts)
  have "query_blocks content parts = parts"
    using 3(2) by (auto intro: query_blocks_no_text)
  then show ?case using 3 by (simp add: case_prod_beta)
qed (simp_all add: case_prod_beta)

lemma query_messages_starts: "\<exists>rest. fst (query_messages ms en parts) = Anext # rest"
  by (induction ms en parts rule: query_messages.induct) (simp_all add: case_prod_beta)

lemma stream_complete_events:
  assumes "query (prompt request) (make_options request) = Producer ms en"
    and "stream_messages ms en [] = (steps, Inr (parts, u))"
  shows "of_type ''complete'' (stream_agent_progress clock query request) =
           [create_event (clock (2 + length (yield_types steps))) ''complete'' (complete_data parts u)] \<and>
         of_type ''error'' (stream_agent_progress clock query request) = []"
proof -
  have c: "of_type ''complete'' (emitted clock 2 steps) = []"
    using of_type_emitted_messages [of "''complete''" clock 2 ms en "[]"] assms(2) by simp
  have e: "of_type ''error'' (emitted clock 2 steps) = []"
    using of_type_emitted_messages [of "''error''" clock 2 ms en "[]"] assms(2) by simp
  show ?thesis
    using c e stream_events_complete [of query request ms en steps parts u clock] assms
    by (simp add: of_type_def create_event_def)
qed

lemma stream_error_events:
  assumes "query (prompt request) (make_options request) = Producer ms en"
    and "stream_messages ms en [] = (steps, Inl e)"
  shows "of_type ''error'' (stream_agent_progress clock query request) =
           [create_event (clock (2 + length (yield_types steps))) ''error'' (error_data e)] \<and>
         of_type ''complete'' (stream_agent_progress clock query request) = []"
proof -
  have c: "of_type ''complete'' (emitted clock 2 steps) = []"
    using of_type_emitted_messages [of "''complete''" clock 2 ms en "[]"] assms(2) by simp
  have e: "of_type ''error'' (emitted clock 2 steps) = []"
    using of_type_emitted_messages [of "''error''" clock 2 ms en "[]"] assms(2) by simp
  show ?thesis
    using c e stream_events_error [of query request ms en steps e clock] assms
    by (simp add: of_type_def create_event_def)
qed

lemma query_agent_success:
  assumes "query (prompt request) (make_options request) = Producer ms en"
    and "snd (query_messages ms en []) = Inr (parts, u)"
  shows "snd (query_agent query request) =
           Inr \<lparr>status = ''success'', response = full_response parts,
                usage = or_empty u, agent_info = agent_info_dict\<rparr>"
  using assms by (simp add: query_agent_def case_prod_beta)

lemma query_agent_failure:
  assumes "query (prompt request) (make_options request) = Producer ms en"
    and "snd (query_messages ms en []) = Inl e"
  shows "snd (query_agent query request) =
           Inl \<lparr>status_code = 500, detail = ''Agent execution failed: '' @ str e\<rparr>"
  using assms by (simp add: query_agent_def case_prod_beta)

lemma complete_data_response:
  "map_of (complete_data parts u) ''response'' = Some (PStr (full_response parts))"
  by (simp add: complete_data_def)

lemma complete_data_usage:
  "map_of (complete_data parts u) ''usage'' = Some (PDict (or_empty u))"
  by (simp add: complete_data_def)



text \<open>
  C2. When an advance of the producer raises (no result message came before, so that the
  handler does reach the failing advance), the stream ends with one \<open>error\<close> event that
  carries the exception, holds no \<open>complete\<close> event, and everything before the
  \<open>error\<close> event was yielded before the failing advance and is what the same messages
  give when the producer just ends; the blocking handler raises one
  \<open>HTTPException\<close> with status 500.
\<close>

theorem failure_gives_one_error_event:
  assumes "query (prompt request) (make_options request) = Producer ms (Raises e)"
    and "\<forall>m \<in> set ms. \<not> is_ResultMessage m"
  shows "(\<exists>steps evs.
            stream_steps query request = steps @ [Anext, Yield ''error'' (error_data e)] \<and>
            emitted clock 0 steps = evs \<and>
            stream_agent_progress clock query request =
              evs @ [create_event (clock (length evs)) ''error'' (error_data e)] \<and>
            butlast (stream_agent_progress clock (fixed_query (Producer ms StopAsyncIteration)) request) = evs) \<and>
         length (of_type ''error'' (stream_agent_progress clock query request)) = 1 \<and>
         length (of_type ''complete'' (stream_agent_progress clock query request)) = 0 \<and>
         snd (query_agent query request) =
           Inl \<lparr>status_code = 500, detail = ''Agent execution failed: '' @ str e\<rparr>"
proof -
  obtain steps p where
    stop: "stream_messages ms StopAsyncIteration [] = (steps @ [Anext], Inr (p, None))" and
    fail: "stream_messages ms (Raises e) [] = (steps @ [Anext], Inl e)"
    using stream_messages_prefix [OF assms(2), of "[]" e] by blast
  let ?pre = "[Yield ''progress'' progress_start, Yield ''progress'' progress_processing,
               Call (prompt request) (make_options request)] @ steps"
  have s: "stream_steps query request = ?pre @ [Anext, Yield ''error'' (error_data e)]"
    using assms(1) fail by (simp add: stream_steps_def)
  have s': "stream_steps (fixed_query (Producer ms StopAsyncIteration)) request =
              ?pre @ [Anext, Yield ''complete'' (complete_data p None)]"
    using stop by (simp add: stream_steps_def)
  have ev: "stream_agent_progress clock query request =
              emitted clock 0 ?pre @
              [create_event (clock (length (emitted clock 0 ?pre))) ''error'' (error_data e)]"
    unfolding stream_agent_progress_def s
    by (simp add: emitted_append emitted_length)
  have ev': "stream_agent_progress clock (fixed_query (Producer ms StopAsyncIteration)) request =
              emitted clock 0 ?pre @
              [create_event (clock (length (emitted clock 0 ?pre))) ''complete'' (complete_data p None)]"
    unfolding stream_agent_progress_def s'
    by (simp add: emitted_append emitted_length)
  have a: "\<exists>steps evs.
            stream_steps query request = steps @ [Anext, Yield ''error'' (error_data e)] \<and>
            emitted clock 0 steps = evs \<and>
            stream_agent_progress clock query request =
              evs @ [create_event (clock (length evs)) ''error'' (error_data e)] \<and>
            butlast (stream_agent_progress clock (fixed_query (Producer ms StopAsyncIteration)) request) = evs"
    using s ev ev' by (intro exI [of _ ?pre] exI [of _ "emitted clock 0 ?pre"]) simp
  have cnt: "of_type ''error'' (stream_agent_progress clock query request) =
           [create_event (clock (2 + length (yield_types (steps @ [Anext])))) ''error'' (error_data e)] \<and>
         of_type ''complete'' (stream_agent_progress clock query request) = []"
    using stream_error_events [of query request ms "Raises e" "steps @ [Anext]" e clock] assms(1) fail
    by simp
  have "snd (query_messages ms (Raises e) []) = Inl e"
    using fail stream_messages_result [of ms "Raises e" "[]"] by simp
  then have b: "snd (query_agent query request) =
           Inl \<lparr>status_code = 500, detail = ''Agent execution failed: '' @ str e\<rparr>"
    using query_agent_failure [of query request ms "Raises e" e] assms(1) by simp
  show ?thesis using a cnt b by simp
qed

theorem failure_gives_one_error_event_witness:
  "stream_agent_progress (clock_of [''t0'', ''t1'', ''t2'', ''t3'', ''t4''])
     (fixed_query (Producer [AssistantMessage [ToolUseBlock ''WebSearch'' [(''q'', PStr ''usd eur'')],
                                               TextBlock ''EUR=0.92'']]
                            (Raises (Exception ''ConnectionError'' ''timeout'')) :: real producer))
     \<lparr>prompt = ''rates for USD/EUR'', max_turns = 20\<rparr> =
   butlast (stream_agent_progress (clock_of [''t0'', ''t1'', ''t2'', ''t3'', ''t4''])
     (fixed_query (Producer [AssistantMessage [ToolUseBlock ''WebSearch'' [(''q'', PStr ''usd eur'')],
                                               TextBlock ''EUR=0.92'']] StopAsyncIteration))
     \<lparr>prompt = ''rates for USD/EUR'', max_turns = 20\<rparr>) @
   [create_event ''t4'' ''error'' (error_data (Exception ''ConnectionError'' ''timeout''))] \<and>
   snd (query_agent
     (fixed_query (Producer [AssistantMessage [ToolUseBlock ''WebSearch'' [(''q'', PStr ''usd eur'')],
                                               TextBlock ''EUR=0.92'']]
                            (Raises (Exception ''ConnectionError'' ''timeout'')) :: real producer))
     \<lparr>prompt = ''rates for USD/EUR'', max_turns = 20\<rparr>) =
   Inl \<lparr>status_code = 500, detail = ''Agent execution failed: timeout''\<rparr>"
  using failure_gives_one_error_event
    [where query = "fixed_query (Producer [AssistantMessage [ToolUseBlock ''WebSearch'' [(''q'', PStr ''usd eur'')],
                                               TextBlock ''EUR=0.92'']]
                            (Raises (Exception ''ConnectionError'' ''timeout'')) :: real producer)"
       and request = "\<lparr>prompt = ''rates for USD/EUR'', max_turns = 20\<rparr>"
       and ms = "[AssistantMessage [ToolUseBlock ''WebSearch'' [(''q'', PStr ''usd eur'')],
                                               TextBlock ''EUR=0.92'']]"
       and e = "Exception ''ConnectionError'' ''timeout''"
       and clock = "clock_of [''t0'', ''t1'', ''t2'', ''t3'', ''t4'']"]
  by (simp add: stream_agent_progress_def stream_steps_def create_event_def)

text \<open>
  C4. For a producer that does not fail (it ends, or it yields a result message), the
  \<open>response\<close> and \<open>usage\<close> entries of the \<open>complete\<close> event are the \<open>response\<close>
  and \<open>usage\<close> fields of the blocking success body.
\<close>

theorem modes_agree_on_response_and_usage:
  assumes "query (prompt request) (make_options request) = Producer ms en"
    and "en = StopAsyncIteration \<or> (\<exists>m \<in> set ms. is_ResultMessage m)"
  shows "\<exists>ev resp.
           of_type ''complete'' (stream_agent_progress clock query request) = [ev] \<and>
           snd (query_agent query request) = Inr resp \<and>
           map_of (data ev) ''response'' = Some (PStr (response resp)) \<and>
           map_of (data ev) ''usage'' = Some (PDict (usage resp))"
proof -
  obtain p u where q: "snd (query_messages ms en []) = Inr (p, u)"
    using nonfailing_result [OF assms(2), of "[]"] by blast
  then have "snd (stream_messages ms en []) = Inr (p, u)"
    by (simp add: stream_messages_result)
  then obtain steps where m: "stream_messages ms en [] = (steps, Inr (p, u))"
    by (cases "stream_messages ms en []") simp
  let ?ev = "create_event (clock (2 + length (yield_types steps))) ''complete'' (complete_data p u)"
  let ?resp = "\<lparr>status = ''success'', response = full_response p,
                usage = or_empty u, agent_info = agent_info_dict\<rparr>"
  have "of_type ''complete'' (stream_agent_progress clock query request) = [?ev]"
    using stream_complete_events [of query request ms en steps p u clock] assms(1) m by simp
  moreover have "snd (query_agent query request) = Inr ?resp"
    using query_agent_success [of query request ms en p u] assms(1) q by simp
  moreover have "map_of (data ?ev) ''response'' = Some (PStr (response ?resp))"
    by (simp add: create_event_def complete_data_response)
  moreover have "map_of (data ?ev) ''usage'' = Some (PDict (usage ?resp))"
    by (simp add: create_event_def complete_data_usage)
  ultimately show ?thesis by blast
qed

theorem modes_agree_on_response_and_usage_witness:
  "\<exists>ev resp.
     of_type ''complete''
       (stream_agent_progress (clock_of [''t0'', ''t1'', ''t2'', ''t3''])
          (fixed_query (Producer [AssistantMessage [TextBlock ''EUR=0.92''],
                                  ResultMessage 1200 (1 / 100 :: real) 1 ''abc''] StopAsyncIteration))
          \<lparr>prompt = ''rates for USD/EUR'', max_turns = 20\<rparr>) = [ev] \<and>
     snd (query_agent
          (fixed_query (Producer [AssistantMessage [TextBlock ''EUR=0.92''],
                                  ResultMessage 1200 (1 / 100 :: real) 1 ''abc''] StopAsyncIteration))
          \<lparr>prompt = ''rates for USD/EUR'', max_turns = 20\<rparr>) = Inr resp \<and>
     map_of (data ev) ''response'' = Some (PStr (response resp)) \<and>
     map_of (data ev) ''usage'' = Some (PDict (usage resp))"
  using modes_agree_on_response_and_usage
    [where query = "fixed_query (Producer [AssistantMessage [TextBlock ''EUR=0.92''],
                                  ResultMessage 1200 (1 / 100 :: real) 1 ''abc''] StopAsyncIteration)"
       and request = "\<lparr>prompt = ''rates for USD/EUR'', max_turns = 20\<rparr>"
       and ms = "[AssistantMessage [TextBlock ''EUR=0.92''], ResultMessage 1200 (1 / 100 :: real) 1 ''abc'']"
       and en = StopAsyncIteration
       and clock = "clock_of [''t0'', ''t1'', ''t2'', ''t3'']"]
  by simp

text \<open>
  C9. When the producer yields no text block and does not fail, the \<open>response\<close> of the
  \<open>complete\<close> event and of the blocking success body is the placeholder
  \<open>No response received\<close>, which is not the empty string.
\<close>

theorem no_text_gives_placeholder:
  assumes "query (prompt request) (make_options request) = Producer ms en"
    and "\<forall>m \<in> set ms. \<not> has_TextBlock m"
    and "en = StopAsyncIteration \<or> (\<exists>m \<in> set ms. is_ResultMessage m)"
  shows "\<exists>ev resp.
           of_type ''complete'' (stream_agent_progress clock query request) = [ev] \<and>
           map_of (data ev) ''response'' = Some (PStr ''No response received'') \<and>
           snd (query_agent query request) = Inr resp \<and>
           response resp = ''No response received'' \<and>
           response resp \<noteq> ''''"
proof -
  obtain p u where q: "snd (query_messages ms en []) = Inr (p, u)"
    using nonfailing_result [OF assms(3), of "[]"] by blast
  have p: "p = []"
    using no_text_parts [OF assms(2) q] .
  have "snd (stream_messages ms en []) = Inr ([], u)"
    using q p by (simp add: stream_messages_result)
  then obtain steps where m: "stream_messages ms en [] = (steps, Inr ([], u))"
    by (cases "stream_messages ms en []") simp
  let ?ev = "create_event (clock (2 + length (yield_types steps))) ''complete'' (complete_data [] u)"
  let ?resp = "\<lparr>status = ''success'', response = full_response [],
                usage = or_empty u, agent_info = agent_info_dict\<rparr>"
  have "of_type ''complete'' (stream_agent_progress clock query request) = [?ev]"
    using stream_complete_events [of query request ms en steps "[]" u clock] assms(1) m by simp
  moreover have "snd (query_agent query request) = Inr ?resp"
    using query_agent_success [of query request ms en "[]" u] assms(1) q p by simp
  moreover have "map_of (data ?ev) ''response'' = Some (PStr ''No response received'')"
    by (simp add: create_event_def complete_data_response full_response_def)
  moreover have "response ?resp = ''No response received''"
    by (simp add: full_response_def)
  moreover have "response ?resp \<noteq> ''''"
    by (simp add: full_response_def)
  ultimately show ?thesis by blast
qed

theorem no_text_gives_placeholder_witness:
  "\<exists>ev resp.
     of_type ''complete''
       (stream_agent_progress (clock_of [''t0'', ''t1'', ''t2'', ''t3''])
          (fixed_query (Producer [AssistantMessage [ToolUseBlock ''Bash'' [], ToolResultBlock],
                                  OtherMessage,
                                  ResultMessage 1200 (1 / 100 :: real) 1 ''abc''] StopAsyncIteration))
          \<lparr>prompt = ''rates for USD/EUR'', max_turns = 20\<rparr>) = [ev] \<and>
     map_of (data ev) ''response'' = Some (PStr ''No response received'') \<and>
     snd (query_agent
          (fixed_query (Producer [AssistantMessage [ToolUseBlock ''Bash'' [], ToolResultBlock],
                                  OtherMessage,
                                  ResultMessage 1200 (1 / 100 :: real) 1 ''abc''] StopAsyncIteration))
          \<lparr>prompt = ''rates for USD/EUR'', max_turns = 20\<rparr>) = Inr resp \<and>
     response resp = ''No response received'' \<and>
     response resp \<noteq> ''''"
  using no_text_gives_placeholder
    [where query = "fixed_query (Producer [AssistantMessage [ToolUseBlock ''Bash'' [], ToolResultBlock],
                                  OtherMessage,
                                  ResultMessage 1200 (1 / 100 :: real) 1 ''abc''] StopAsyncIteration)"
       and request = "\<lparr>prompt = ''rates for USD/EUR'', max_turns = 20\<rparr>"
       and ms = "[AssistantMessage [ToolUseBlock ''Bash'' [], ToolResultBlock], OtherMessage,
                  ResultMessage 1200 (1 / 100 :: real) 1 ''abc'']"
       and en = StopAsyncIteration
       and clock = "clock_of [''t0'', ''t1'', ''t2'', ''t3'']"]
  by simp






lemma query_agent_steps:
  assumes "query (prompt request) (make_options request) = Producer ms en"
  shows "fst (query_agent query request) =
           Call (prompt request) (make_options request) # fst (query_messages ms en [])"
  using assms by (simp add: query_agent_def case_prod_beta)

text \<open>
  C7. When the producer yields a result message, the first one yields no event: the
  stream is the events of the messages before it and then the \<open>complete\<close> event, whose
  \<open>usage\<close> holds the four fields of the result message. The producer is advanced once
  per message up to the result message and never again, and nothing after the result
  message, nor the way the producer would end, changes the stream or the blocking
  response. Without a result message, the same messages give the same events with an
  empty \<open>usage\<close>.
\<close>

theorem result_message_stops_consumption:
  assumes "query (prompt request) (make_options request) =
             Producer (pre @ ResultMessage d c n s # post) en"
    and "\<forall>m \<in> set pre. \<not> is_ResultMessage m"
  shows "\<exists>evs parts.
           stream_agent_progress clock (fixed_query (Producer pre StopAsyncIteration)) request =
             evs @ [create_event (clock (length evs)) ''complete'' (complete_data parts None)] \<and>
           stream_agent_progress clock query request =
             evs @ [create_event (clock (length evs)) ''complete''
                      (complete_data parts
                         (Some [(''duration_ms'', PInt d), (''total_cost_usd'', PFloat c),
                                (''num_turns'', PInt n), (''session_id'', PStr s)]))] \<and>
           map_of (complete_data parts
                     (Some [(''duration_ms'', PInt d), (''total_cost_usd'', PFloat c),
                            (''num_turns'', PInt n), (''session_id'', PStr s)])) ''usage'' =
             Some (PDict [(''duration_ms'', PInt d), (''total_cost_usd'', PFloat c),
                          (''num_turns'', PInt n), (''session_id'', PStr s)]) \<and>
           map_of (complete_data parts None) ''usage'' = Some (PDict []) \<and>
           snd (query_agent query request) =
             Inr \<lparr>status = ''success'', response = full_response parts,
                  usage = [(''duration_ms'', PInt d), (''total_cost_usd'', PFloat c),
                           (''num_turns'', PInt n), (''session_id'', PStr s)],
                  agent_info = agent_info_dict\<rparr> \<and>
           snd (query_agent (fixed_query (Producer pre StopAsyncIteration)) request) =
             Inr \<lparr>status = ''success'', response = full_response parts,
                  usage = [], agent_info = agent_info_dict\<rparr> \<and>
           advances (stream_steps query request) = length pre + 1 \<and>
           advances (fst (query_agent query request)) = length pre + 1"
proof -
  let ?u = "[(''duration_ms'', PInt d), (''total_cost_usd'', PFloat c),
             (''num_turns'', PInt n), (''session_id'', PStr s)]"
  let ?ms = "pre @ ResultMessage d c n s # post"
  obtain steps p where
    stop: "stream_messages pre StopAsyncIteration [] = (steps @ [Anext], Inr (p, None))" and
    res: "stream_messages ?ms en [] = (steps @ [Anext], Inr (p, Some ?u))" and
    adv: "advances steps = length pre"
    using stream_messages_prefix [OF assms(2), of "[]" "Exception [] []" d c n s post en] by blast
  let ?pre = "[Yield ''progress'' progress_start, Yield ''progress'' progress_processing,
               Call (prompt request) (make_options request)] @ steps"
  let ?evs = "emitted clock 0 ?pre"
  have s: "stream_steps query request = ?pre @ [Anext, Yield ''complete'' (complete_data p (Some ?u))]"
    using assms(1) res by (simp add: stream_steps_def)
  have s': "stream_steps (fixed_query (Producer pre StopAsyncIteration)) request =
              ?pre @ [Anext, Yield ''complete'' (complete_data p None)]"
    using stop by (simp add: stream_steps_def)
  have ev: "stream_agent_progress clock query request =
              ?evs @ [create_event (clock (length ?evs)) ''complete'' (complete_data p (Some ?u))]"
    unfolding stream_agent_progress_def s by (simp add: emitted_append emitted_length)
  have ev': "stream_agent_progress clock (fixed_query (Producer pre StopAsyncIteration)) request =
              ?evs @ [create_event (clock (length ?evs)) ''complete'' (complete_data p None)]"
    unfolding stream_agent_progress_def s' by (simp add: emitted_append emitted_length)
  have u1: "map_of (complete_data p (Some ?u)) ''usage'' = Some (PDict ?u)"
    by (simp add: complete_data_usage)
  have u2: "map_of (complete_data p None) ''usage'' = Some (PDict [])"
    by (simp add: complete_data_usage)
  have "snd (query_messages ?ms en []) = Inr (p, Some ?u)"
    using res stream_messages_result [of ?ms en "[]"] by simp
  then have q: "snd (query_agent query request) =
             Inr \<lparr>status = ''success'', response = full_response p,
                  usage = ?u, agent_info = agent_info_dict\<rparr>"
    using query_agent_success [of query request ?ms en p "Some ?u"] assms(1) by simp
  have "snd (query_messages pre StopAsyncIteration []) = Inr (p, None)"
    using stop stream_messages_result [of pre StopAsyncIteration "[]"] by simp
  then have q': "snd (query_agent (fixed_query (Producer pre StopAsyncIteration)) request) =
             Inr \<lparr>status = ''success'', response = full_response p,
                  usage = [], agent_info = agent_info_dict\<rparr>"
    using query_agent_success
      [of "fixed_query (Producer pre StopAsyncIteration)" request pre StopAsyncIteration p None]
    by simp
  have a1: "advances (stream_steps query request) = length pre + 1"
    unfolding s using adv by (simp add: advances_def)
  have "fst (query_messages ?ms en []) = replicate (length pre + 1) Anext"
    using query_messages_steps [of ?ms en "[]"] res adv by (simp add: advances_def)
  then have a2: "advances (fst (query_agent query request)) = length pre + 1"
    using query_agent_steps [of query request ?ms en] assms(1)
    by (simp add: advances_def)
  show ?thesis
    apply (rule exI [of _ ?evs])
    apply (rule exI [of _ p])
    apply (intro conjI)
    apply (rule ev')
    apply (rule ev)
    apply (rule u1)
    apply (rule u2)
    apply (rule q)
    apply (rule q')
    apply (rule a1)
    apply (rule a2)
    done
qed

theorem result_message_stops_consumption_witness:
  "stream_agent_progress (clock_of [''t0'', ''t1'', ''t2'', ''t3''])
     (fixed_query (Producer [AssistantMessage [TextBlock ''EUR=0.92''],
                             ResultMessage 1200 (1 / 100 :: real) 1 ''abc'',
                             AssistantMessage [TextBlock ''late''],
                             ResultMessage 7 (2 :: real) 9 ''xyz'']
                            (Raises (Exception ''RuntimeError'' ''boom''))))
     \<lparr>prompt = ''rates for USD/EUR'', max_turns = 20\<rparr> =
   [create_event ''t0'' ''progress'' progress_start,
    create_event ''t1'' ''progress'' progress_processing,
    create_event ''t2'' ''response''
      [(''content'', PStr ''EUR=0.92''), (''partial'', PBool True),
       (''message'', PStr (emoji_thought @ '' Agent thinking...''))],
    create_event ''t3'' ''complete''
      (complete_data [''EUR=0.92'']
         (Some [(''duration_ms'', PInt 1200), (''total_cost_usd'', PFloat (1 / 100)),
                (''num_turns'', PInt 1), (''session_id'', PStr ''abc'')]))] \<and>
   advances (stream_steps
     (fixed_query (Producer [AssistantMessage [TextBlock ''EUR=0.92''],
                             ResultMessage 1200 (1 / 100 :: real) 1 ''abc'',
                             AssistantMessage [TextBlock ''late''],
                             ResultMessage 7 (2 :: real) 9 ''xyz'']
                            (Raises (Exception ''RuntimeError'' ''boom''))))
     \<lparr>prompt = ''rates for USD/EUR'', max_turns = 20\<rparr>) = 2 \<and>
   snd (query_agent
     (fixed_query (Producer [AssistantMessage [TextBlock ''EUR=0.92''],
                             ResultMessage 1200 (1 / 100 :: real) 1 ''abc'',
                             AssistantMessage [TextBlock ''late''],
                             ResultMessage 7 (2 :: real) 9 ''xyz'']
                            (Raises (Exception ''RuntimeError'' ''boom''))))
     \<lparr>prompt = ''rates for USD/EUR'', max_turns = 20\<rparr>) =
   Inr \<lparr>status = ''success'', response = ''EUR=0.92'',
        usage = [(''duration_ms'', PInt 1200), (''total_cost_usd'', PFloat (1 / 100)),
                 (''num_turns'', PInt 1), (''session_id'', PStr ''abc'')],
        agent_info = agent_info_dict\<rparr>"
proof -
  have p: "fixed_query (Producer [AssistantMessage [TextBlock ''EUR=0.92''],
                             ResultMessage 1200 (1 / 100 :: real) 1 ''abc'',
                             AssistantMessage [TextBlock ''late''],
                             ResultMessage 7 (2 :: real) 9 ''xyz'']
                            (Raises (Exception ''RuntimeError'' ''boom'')))
             (prompt \<lparr>prompt = ''rates for USD/EUR'', max_turns = 20\<rparr>)
             (make_options \<lparr>prompt = ''rates for USD/EUR'', max_turns = 20\<rparr>) =
           Producer ([AssistantMessage [TextBlock ''EUR=0.92'']] @
                     ResultMessage 1200 (1 / 100 :: real) 1 ''abc'' #
                     [AssistantMessage [TextBlock ''late''], ResultMessage 7 (2 :: real) 9 ''xyz''])
                    (Raises (Exception ''RuntimeError'' ''boom''))"
    by simp
  have h: "\<forall>m \<in> set [AssistantMessage [TextBlock ''EUR=0.92''] :: real Message].
             \<not> is_ResultMessage m"
    by simp
  show ?thesis
    using result_message_stops_consumption
      [where query = "fixed_query (Producer [AssistantMessage [TextBlock ''EUR=0.92''],
                             ResultMessage 1200 (1 / 100 :: real) 1 ''abc'',
                             AssistantMessage [TextBlock ''late''],
                             ResultMessage 7 (2 :: real) 9 ''xyz'']
                            (Raises (Exception ''RuntimeError'' ''boom'')))"
         and request = "\<lparr>prompt = ''rates for USD/EUR'', max_turns = 20\<rparr>"
         and pre = "[AssistantMessage [TextBlock ''EUR=0.92'']]"
         and d = 1200 and c = "1 / 100" and n = 1 and s = "''abc''"
         and post = "[AssistantMessage [TextBlock ''late''], ResultMessage 7 (2 :: real) 9 ''xyz'']"
         and en = "Raises (Exception ''RuntimeError'' ''boom'')"
         and clock = "clock_of [''t0'', ''t1'', ''t2'', ''t3'']", OF p h]
    by (simp add: stream_agent_progress_def stream_steps_def query_agent_def advances_def
                  full_response_def)
qed

text \<open>
  C6, as stated, fails for the blocking handler: for \<open>ConnectionError("timeout")\<close> the
  detail of the 500 response is not \<open>timeout\<close>.
\<close>

theorem blocking_detail_is_prefixed:
  "snd (query_agent
          (fixed_query (Producer [] (Raises (Exception ''ConnectionError'' ''timeout'')) :: real producer))
          \<lparr>prompt = ''rates for USD/EUR'', max_turns = 20\<rparr>) =
     Inl \<lparr>status_code = 500, detail = ''Agent execution failed: timeout''\<rparr> \<and>
   snd (query_agent
          (fixed_query (Producer [] (Raises (Exception ''ConnectionError'' ''timeout'')) :: real producer))
          \<lparr>prompt = ''rates for USD/EUR'', max_turns = 20\<rparr>) \<noteq>
     Inl \<lparr>status_code = 500, detail = str (Exception ''ConnectionError'' ''timeout'')\<rparr>"
  by (simp add: query_agent_def)

text \<open>
  C6, as the code has it. When an advance of the producer raises an exception whose
  \<open>str\<close> is \<open>m\<close>, the \<open>error\<close> entry of the \<open>error\<close> event is \<open>m\<close> itself (its
  \<open>message\<close> entry is \<open>m\<close> after a fixed prefix), and the detail of the blocking 500
  response is \<open>m\<close> after the prefix \<open>Agent execution failed: \<close>. When the producer raises
  before any message, the stream is the two startup \<open>progress\<close> events and the
  \<open>error\<close> event.
\<close>

theorem error_description_delivered:
  assumes "query (prompt request) (make_options request) = Producer ms (Raises e)"
    and "\<forall>m \<in> set ms. \<not> is_ResultMessage m"
  shows "(\<exists>ev. of_type ''error'' (stream_agent_progress clock query request) = [ev] \<and>
               map_of (data ev) ''error'' = Some (PStr (str e)) \<and>
               map_of (data ev) ''message'' = Some (PStr (emoji_cross @ '' Error: '' @ str e))) \<and>
         snd (query_agent query request) =
           Inl \<lparr>status_code = 500, detail = ''Agent execution failed: '' @ str e\<rparr> \<and>
         (ms = [] \<longrightarrow>
            stream_agent_progress clock query request =
              [create_event (clock 0) ''progress'' progress_start,
               create_event (clock 1) ''progress'' progress_processing,
               create_event (clock 2) ''error'' (error_data e)])"
proof -
  obtain steps where
    fail: "stream_messages ms (Raises e) [] = (steps @ [Anext], Inl e)"
    using stream_messages_prefix [OF assms(2), of "[]" e] by blast
  let ?ev = "create_event (clock (2 + length (yield_types (steps @ [Anext])))) ''error'' (error_data e)"
  have "of_type ''error'' (stream_agent_progress clock query request) = [?ev]"
    using stream_error_events [of query request ms "Raises e" "steps @ [Anext]" e clock] assms(1) fail
    by simp
  moreover have "map_of (data ?ev) ''error'' = Some (PStr (str e))"
    by (simp add: create_event_def error_data_def)
  moreover have "map_of (data ?ev) ''message'' = Some (PStr (emoji_cross @ '' Error: '' @ str e))"
    by (simp add: create_event_def error_data_def)
  ultimately have a: "\<exists>ev. of_type ''error'' (stream_agent_progress clock query request) = [ev] \<and>
               map_of (data ev) ''error'' = Some (PStr (str e)) \<and>
               map_of (data ev) ''message'' = Some (PStr (emoji_cross @ '' Error: '' @ str e))"
    by blast
  have "snd (query_messages ms (Raises e) []) = Inl e"
    using fail stream_messages_result [of ms "Raises e" "[]"] by simp
  then have b: "snd (query_agent query request) =
           Inl \<lparr>status_code = 500, detail = ''Agent execution failed: '' @ str e\<rparr>"
    using query_agent_failure [of query request ms "Raises e" e] assms(1) by simp
  have c: "stream_agent_progress clock query request =
              [create_event (clock 0) ''progress'' progress_start,
               create_event (clock 1) ''progress'' progress_processing,
               create_event (clock 2) ''error'' (error_data e)]" if "ms = []"
    using that assms(1) by (simp add: stream_agent_progress_def stream_steps_def numeral_2_eq_2)
  show ?thesis using a b c by simp
qed

theorem error_description_delivered_witness:
  "(\<exists>ev. of_type ''error''
           (stream_agent_progress (clock_of [''t0'', ''t1'', ''t2''])
              (fixed_query (Producer [] (Raises (Exception ''ConnectionError'' ''timeout'')) :: real producer))
              \<lparr>prompt = ''rates for USD/EUR'', max_turns = 20\<rparr>) = [ev] \<and>
         map_of (data ev) ''error'' = Some (PStr ''timeout'') \<and>
         map_of (data ev) ''message'' = Some (PStr (emoji_cross @ '' Error: timeout''))) \<and>
   snd (query_agent
     (fixed_query (Producer [] (Raises (Exception ''ConnectionError'' ''timeout'')) :: real producer))
     \<lparr>prompt = ''rates for USD/EUR'', max_turns = 20\<rparr>) =
     Inl \<lparr>status_code = 500, detail = ''Agent execution failed: timeout''\<rparr> \<and>
   stream_agent_progress (clock_of [''t0'', ''t1'', ''t2''])
     (fixed_query (Producer [] (Raises (Exception ''ConnectionError'' ''timeout'')) :: real producer))
     \<lparr>prompt = ''rates for USD/EUR'', max_turns = 20\<rparr> =
   [create_event ''t0'' ''progress'' progress_start,
    create_event ''t1'' ''progress'' progress_processing,
    create_event ''t2'' ''error'' (error_data (Exception ''ConnectionError'' ''timeout''))]"
proof -
  have p: "fixed_query (Producer [] (Raises (Exception ''ConnectionError'' ''timeout'')) :: real producer)
             (prompt \<lparr>prompt = ''rates for USD/EUR'', max_turns = 20\<rparr>)
             (make_options \<lparr>prompt = ''rates for USD/EUR'', max_turns = 20\<rparr>) =
           Producer [] (Raises (Exception ''ConnectionError'' ''timeout''))"
    by simp
  have h: "\<forall>m \<in> set ([] :: real Message list). \<not> is_ResultMessage m"
    by simp
  show ?thesis
    using error_description_delivered
      [where query = "fixed_query (Producer [] (Raises (Exception ''ConnectionError'' ''timeout'')) :: real producer)"
         and request = "\<lparr>prompt = ''rates for USD/EUR'', max_turns = 20\<rparr>"
         and ms = "[]" and e = "Exception ''ConnectionError'' ''timeout''"
         and clock = "clock_of [''t0'', ''t1'', ''t2'']", OF p h]
    by (simp add: numeral_2_eq_2 of_type_def create_event_def error_data_def)
qed

text \<open>
  C5, as stated, fails: a body with the empty prompt and \<open>max_turns = 0\<close> is not rejected;
  both routes call \<open>query\<close> with them and advance the producer.
\<close>

theorem empty_prompt_not_rejected:
  "post_query (fixed_query (Producer [] StopAsyncIteration :: real producer))
     \<lparr>body_prompt = Present '''', body_max_turns = Present 0\<rparr> =
   Handled ([Call '''' (ClaudeAgentOptions AGENT_CONFIG_tools AGENT_CONFIG_system_prompt
                         AGENT_CONFIG_permission_mode 0), Anext],
            Inr \<lparr>status = ''success'', response = ''No response received'', usage = [],
                 agent_info = agent_info_dict\<rparr>) \<and>
   post_stream (fixed_query (Producer [] StopAsyncIteration :: real producer))
     \<lparr>body_prompt = Present '''', body_max_turns = Present 0\<rparr> =
   Handled [Yield ''progress'' progress_start, Yield ''progress'' progress_processing,
            Call '''' (ClaudeAgentOptions AGENT_CONFIG_tools AGENT_CONFIG_system_prompt
                        AGENT_CONFIG_permission_mode 0),
            Anext, Yield ''complete'' (complete_data [] None)]"
  by (simp add: post_query_def post_stream_def validate_QueryRequest_def query_agent_def
                stream_steps_def make_options_def full_response_def)

text \<open>
  C5, as the code has it. A body fails validation, and is answered 422 before \<open>query\<close>
  is called, when its \<open>prompt\<close> is absent or is not a string or its \<open>max_turns\<close> is
  present and is not an integer. Every other body is accepted by both routes, whatever
  the prompt (also the empty one) and whatever the number of turns (also zero or
  negative; 20 when absent): \<open>query\<close> is called with that prompt and that number of
  turns and then advanced.
\<close>

theorem validation_checks_types_only:
  "(body_prompt body = Absent \<or> body_prompt body = IllTyped \<or> body_max_turns body = IllTyped \<longrightarrow>
      post_query query body = RequestValidationError 422 \<and>
      post_stream query body = RequestValidationError 422) \<and>
   (\<forall>p n. body_prompt body = Present p \<and>
          (body_max_turns body = Present n \<or> body_max_turns body = Absent \<and> n = 20) \<longrightarrow>
      (\<exists>steps r. post_query query body =
         Handled (Call p (ClaudeAgentOptions AGENT_CONFIG_tools AGENT_CONFIG_system_prompt
                            AGENT_CONFIG_permission_mode n) #
                  Anext # steps, r)) \<and>
      (\<exists>steps. post_stream query body =
         Handled (Yield ''progress'' progress_start # Yield ''progress'' progress_processing #
                  Call p (ClaudeAgentOptions AGENT_CONFIG_tools AGENT_CONFIG_system_prompt
                            AGENT_CONFIG_permission_mode n) #
                  Anext # steps)))"
proof -
  have rej: "validate_QueryRequest body = None"
    if "body_prompt body = Absent \<or> body_prompt body = IllTyped \<or> body_max_turns body = IllTyped"
    using that by (auto simp: validate_QueryRequest_def split: body_field.splits)
  have a: "post_query query body = RequestValidationError 422 \<and>
           post_stream query body = RequestValidationError 422"
    if "body_prompt body = Absent \<or> body_prompt body = IllTyped \<or> body_max_turns body = IllTyped"
    using rej [OF that] by (simp add: post_query_def post_stream_def)
  have b: "(\<exists>steps r. post_query query body =
         Handled (Call p (ClaudeAgentOptions AGENT_CONFIG_tools AGENT_CONFIG_system_prompt
                            AGENT_CONFIG_permission_mode n) #
                  Anext # steps, r)) \<and>
      (\<exists>steps. post_stream query body =
         Handled (Yield ''progress'' progress_start # Yield ''progress'' progress_processing #
                  Call p (ClaudeAgentOptions AGENT_CONFIG_tools AGENT_CONFIG_system_prompt
                            AGENT_CONFIG_permission_mode n) #
                  Anext # steps))"
    if h: "body_prompt body = Present p \<and>
          (body_max_turns body = Present n \<or> body_max_turns body = Absent \<and> n = 20)"
    for p n
  proof -
    let ?request = "\<lparr>prompt = p, max_turns = n\<rparr>"
    have v: "validate_QueryRequest body = Some ?request"
      using h by (auto simp: validate_QueryRequest_def)
    have o: "make_options ?request =
               ClaudeAgentOptions AGENT_CONFIG_tools AGENT_CONFIG_system_prompt
                 AGENT_CONFIG_permission_mode n"
      by (simp add: make_options_def)
    obtain ms en where pr: "query (prompt ?request) (make_options ?request) = Producer ms en"
      by (cases "query (prompt ?request) (make_options ?request)")
    obtain rest where r: "fst (query_messages ms en []) = Anext # rest"
      using query_messages_starts [of ms en "[]"] by blast
    obtain steps0 r0 where qa: "query_agent query ?request = (steps0, r0)"
      by (cases "query_agent query ?request")
    have "steps0 = Call (prompt ?request) (make_options ?request) # Anext # rest"
      using query_agent_steps [of query ?request ms en] pr r qa by simp
    then have s0: "steps0 =
          Call p (ClaudeAgentOptions AGENT_CONFIG_tools AGENT_CONFIG_system_prompt
                    AGENT_CONFIG_permission_mode n) # Anext # rest"
      using o by simp
    have "post_query query body = Handled (steps0, r0)"
      using v qa by (simp add: post_query_def)
    then have q: "\<exists>steps r. post_query query body =
         Handled (Call p (ClaudeAgentOptions AGENT_CONFIG_tools AGENT_CONFIG_system_prompt
                            AGENT_CONFIG_permission_mode n) #
                  Anext # steps, r)"
      using s0 by blast
    obtain rest' where "stream_steps query ?request =
        Yield ''progress'' progress_start # Yield ''progress'' progress_processing #
        Call (prompt ?request) (make_options ?request) # Anext # rest'"
      using startup_steps [of query ?request] by blast
    then have "stream_steps query ?request =
        Yield ''progress'' progress_start # Yield ''progress'' progress_processing #
        Call p (ClaudeAgentOptions AGENT_CONFIG_tools AGENT_CONFIG_system_prompt
                  AGENT_CONFIG_permission_mode n) # Anext # rest'"
      using o by simp
    then have "\<exists>steps. post_stream query body =
         Handled (Yield ''progress'' progress_start # Yield ''progress'' progress_processing #
                  Call p (ClaudeAgentOptions AGENT_CONFIG_tools AGENT_CONFIG_system_prompt
                            AGENT_CONFIG_permission_mode n) #
                  Anext # steps)"
      using v by (simp add: post_stream_def)
    then show ?thesis using q by blast
  qed
  show ?thesis using a b by blast
qed

theorem validation_checks_types_only_witness:
  "post_query (fixed_query (Producer [] StopAsyncIteration :: real producer))
     \<lparr>body_prompt = Absent, body_max_turns = Present 5\<rparr> = RequestValidationError 422 \<and>
   post_stream (fixed_query (Producer [] StopAsyncIteration :: real producer))
     \<lparr>body_prompt = Present ''rates'', body_max_turns = IllTyped\<rparr> =
     RequestValidationError 422 \<and>
   (\<exists>steps r. post_query (fixed_query (Producer [] StopAsyncIteration :: real producer))
        \<lparr>body_prompt = Present '''', body_max_turns = Present (- 3)\<rparr> =
      Handled (Call '''' (ClaudeAgentOptions AGENT_CONFIG_tools AGENT_CONFIG_system_prompt
                           AGENT_CONFIG_permission_mode (- 3)) # Anext # steps, r)) \<and>
   (\<exists>steps. post_stream (fixed_query (Producer [] StopAsyncIteration :: real producer))
        \<lparr>body_prompt = Present '''', body_max_turns = Absent\<rparr> =
      Handled (Yield ''progress'' progress_start # Yield ''progress'' progress_processing #
               Call '''' (ClaudeAgentOptions AGENT_CONFIG_tools AGENT_CONFIG_system_prompt
                           AGENT_CONFIG_permission_mode 20) # Anext # steps))"
proof -
  note t = validation_checks_types_only
      [where query = "fixed_query (Producer [] StopAsyncIteration :: real producer)"]
  have 1: "post_query (fixed_query (Producer [] StopAsyncIteration :: real producer))
     \<lparr>body_prompt = Absent, body_max_turns = Present 5\<rparr> = RequestValidationError 422"
    using t [where body = "\<lparr>body_prompt = Absent, body_max_turns = Present 5\<rparr>"] by simp
  have 2: "post_stream (fixed_query (Producer [] StopAsyncIteration :: real producer))
     \<lparr>body_prompt = Present ''rates'', body_max_turns = IllTyped\<rparr> =
     RequestValidationError 422"
    using t [where body = "\<lparr>body_prompt = Present ''rates'', body_max_turns = IllTyped\<rparr>"]
    by simp
  have 3: "\<exists>steps r. post_query (fixed_query (Producer [] StopAsyncIteration :: real producer))
        \<lparr>body_prompt = Present '''', body_max_turns = Present (- 3)\<rparr> =
      Handled (Call '''' (ClaudeAgentOptions AGENT_CONFIG_tools AGENT_CONFIG_system_prompt
                           AGENT_CONFIG_permission_mode (- 3)) # Anext # steps, r)"
    using t [where body = "\<lparr>body_prompt = Present '''', body_max_turns = Present (- 3)\<rparr>",
             THEN conjunct2, THEN spec, THEN spec, THEN mp, THEN conjunct1,
             of "''''" "- 3"]
    by simp
  have 4: "\<exists>steps. post_stream (fixed_query (Producer [] StopAsyncIteration :: real producer))
        \<lparr>body_prompt = Present '''', body_max_turns = Absent\<rparr> =
      Handled (Yield ''progress'' progress_start # Yield ''progress'' progress_processing #
               Call '''' (ClaudeAgentOptions AGENT_CONFIG_tools AGENT_CONFIG_system_prompt
                           AGENT_CONFIG_permission_mode 20) # Anext # steps)"
    using t [where body = "\<lparr>body_prompt = Present '''', body_max_turns = Absent\<rparr>",
             THEN conjunct2, THEN spec, THEN spec, THEN mp, THEN conjunct2,
             of "''''" 20]
    by simp
  show ?thesis using 1 2 3 4 by blast
qed

end
